theory Spec2Isabelle
  imports Main
begin

section \<open>Python values and dictionaries\<close>

text \<open>
  A compiled pattern is used through \<open>search\<close> only, and of the match object only
  \<open>groups()\<close> is read: a pattern is the function from the searched text to the groups of
  the first match (\<open>None\<close> when the pattern matches nowhere; a group that did not take
  part in the match is \<open>None\<close>).
\<close>

type_synonym groups = "string option list"
type_synonym regex = "string \<Rightarrow> groups option"

text \<open>
  The values stored in \<open>ua_data\<close>: \<open>None\<close>, strings, integers, nested dictionaries
  (the engine descriptor \<open>{'default': 'WebKit', 'versions': {28: 'Blink'}}\<close>, the record
  of a nested parser) and the list of version sub-rules of a rule, each a pattern and a
  version. A dictionary is an association list with distinct keys in insertion order, as
  Python keeps it.
\<close>

datatype val =
    NoneV
  | Str string
  | IntV int
  | Dict "(val \<times> val) list"
  | Versions "(regex \<times> val) list"

type_synonym dict = "(string \<times> val) list"

datatype error = KeyError | TypeError | AttributeError

text \<open>Python truth value of a value (\<open>if x\<close>, \<open>not x\<close>, \<open>x or y\<close>).\<close>

fun truthy :: "val \<Rightarrow> bool" where
  "truthy NoneV = False"
| "truthy (Str s) = (s \<noteq> [])"
| "truthy (IntV i) = (i \<noteq> 0)"
| "truthy (Dict kvs) = (kvs \<noteq> [])"
| "truthy (Versions vs) = (vs \<noteq> [])"

definition py_or :: "val \<Rightarrow> val \<Rightarrow> val" where
  "py_or x y = (if truthy x then x else y)"

text \<open>\<open>d.get(k, default)\<close>, \<open>k in d\<close>, \<open>d[k] = v\<close>, \<open>d |= e\<close> and the removal done by \<open>d.pop(k, default)\<close>.\<close>

definition dict_get :: "('k \<times> val) list \<Rightarrow> 'k \<Rightarrow> val \<Rightarrow> val" where
  "dict_get d k dflt = (case map_of d k of None \<Rightarrow> dflt | Some v \<Rightarrow> v)"

definition dict_in :: "'k \<Rightarrow> ('k \<times> val) list \<Rightarrow> bool" where
  "dict_in k d = (map_of d k \<noteq> None)"

fun dict_set :: "('k \<times> val) list \<Rightarrow> 'k \<Rightarrow> val \<Rightarrow> ('k \<times> val) list" where
  "dict_set [] k v = [(k, v)]"
| "dict_set ((k', v') # d) k v =
     (if k' = k then (k, v) # d else (k', v') # dict_set d k v)"

fun dict_merge :: "('k \<times> val) list \<Rightarrow> ('k \<times> val) list \<Rightarrow> ('k \<times> val) list" where
  "dict_merge d [] = d"
| "dict_merge d ((k, v) # e) = dict_merge (dict_set d k v) e"

definition dict_del :: "('k \<times> val) list \<Rightarrow> 'k \<Rightarrow> ('k \<times> val) list" where
  "dict_del d k = filter (\<lambda>kv. fst kv \<noteq> k) d"

text \<open>A record stored as a value of another record (\<open>ua_data['engine'] = parsed.ua_data\<close>).\<close>

definition as_val :: "dict \<Rightarrow> val" where
  "as_val d = Dict (map (\<lambda>kv. (Str (fst kv), snd kv)) d)"

section \<open>Strings\<close>

text \<open>\<open>s.split(c)\<close>: always at least one segment, empty segments kept.\<close>

fun split_on :: "char \<Rightarrow> string \<Rightarrow> string list" where
  "split_on c [] = [[]]"
| "split_on c (x # xs) =
     (if x = c then [] # split_on c xs
      else (case split_on c xs of [] \<Rightarrow> [[x]] | s # ss \<Rightarrow> (x # s) # ss))"

text \<open>\<open>sep.join(segments)\<close>.\<close>

fun join_with :: "string \<Rightarrow> string list \<Rightarrow> string" where
  "join_with sep [] = []"
| "join_with sep [s] = s"
| "join_with sep (s # t # ss) = s @ sep @ join_with sep (t # ss)"

text \<open>\<open>s.replace(a, b)\<close> for single characters.\<close>

definition replace_char :: "char \<Rightarrow> char \<Rightarrow> string \<Rightarrow> string" where
  "replace_char a b s = map (\<lambda>c. if c = a then b else c) s"

text \<open>The slice \<open>xs[:n]\<close>: a negative \<open>n\<close> counts from the end.\<close>

definition slice_to :: "int \<Rightarrow> 'a list \<Rightarrow> 'a list" where
  "slice_to n xs = (if 0 \<le> n then take (nat n) xs else take (nat (int (length xs) + n)) xs)"

section \<open>parser.py: \<open>build_version\<close>\<close>

text \<open>
  \<open>build_version(version_str, truncation=1)\<close>. A value that is not a string has no
  \<open>replace\<close>: the \<open>AttributeError\<close> is caught and the value returned as it is.
\<close>

definition build_version :: "val \<Rightarrow> int \<Rightarrow> val" where
  "build_version version_str truncation =
     (if truncation = -1 then version_str
      else
        let retain_segments = truncation + 1 in
        (case version_str of
           Str s \<Rightarrow>
             let segments = split_on (CHR ''.'') (replace_char (CHR ''_'') (CHR ''.'') s) in
             if int (length segments) = retain_segments then version_str
             else Str (join_with ''.'' (slice_to retain_segments segments))
         | _ \<Rightarrow> version_str))"

section \<open>parser.py: the \<open>Parser\<close> class\<close>

text \<open>
  A rule of \<open>regex_list\<close> is a dictionary with the compiled pattern under \<open>'regex'\<close>;
  \<open>rest\<close> holds its other items, which \<open>_parse\<close> copies into \<open>ua_data\<close>.
\<close>

record rule =
  regex :: regex
  rest :: dict

text \<open>
  \<open>ClientHints\<close> (client_hints.py) lies outside parser.py and browser.py. The parsers call
  two of its methods, \<open>client_data()\<close> and \<open>client_is_browser()\<close>; an object is their
  two results. \<open>None\<close> is the only client-hints value that is false.
\<close>

record client_hints =
  client_data :: dict
  client_is_browser :: bool

text \<open>
  The attributes of a parser object. \<open>regex_list\<close> and \<open>cache_name\<close> come from the
  class (\<open>RegexLoader\<close>); of \<open>matched_regex\<close> the groups are kept.
\<close>

record parser =
  regex_list :: "rule list"
  cache_name :: string
  user_agent :: string
  ua_hash :: string
  ua_spaceless :: string
  ua_data :: dict
  app_name :: string
  app_name_no_punctuation :: string
  matched_regex :: "groups option"
  app_version :: string
  known :: bool
  secondary_client :: dict
  client_hints :: "client_hints option"
  ch_client_data :: dict
  os_details :: dict

text \<open>\<open>DDCache['user_agents']\<close>: per hash, per cache name, a record.\<close>

type_synonym cache = "string \<rightharpoonup> (string \<rightharpoonup> dict)"

text \<open>
  The helpers of extractors.py, \<open>NameExtractor(ua_data, groups).extract()\<close> and
  \<open>VersionExtractor(ua_data, groups).extract()\<close>, are parameters of the model.
\<close>

record extractors =
  NameExtractor :: "dict \<Rightarrow> groups \<Rightarrow> val"
  VersionExtractor :: "dict \<Rightarrow> groups \<Rightarrow> val"

text \<open>\<open>Parser.__init__\<close>, with the class attributes as its first two arguments.\<close>

definition Parser_init ::
  "rule list \<Rightarrow> string \<Rightarrow> string \<Rightarrow> string \<Rightarrow> string \<Rightarrow> client_hints option \<Rightarrow> dict option
    \<Rightarrow> parser" where
  "Parser_init rl cn ua h spaceless ch os =
     \<lparr> regex_list = rl, cache_name = cn,
       user_agent = ua, ua_hash = h, ua_spaceless = spaceless,
       ua_data = [], app_name = [], app_name_no_punctuation = [],
       matched_regex = None, app_version = [], known = False,
       secondary_client = [],
       client_hints = ch,
       ch_client_data = (case ch of None \<Rightarrow> [] | Some c \<Rightarrow> client_data c),
       os_details = (case os of None \<Rightarrow> [] | Some d \<Rightarrow> d) \<rparr>"

text \<open>
  \<open>get_from_cache\<close> returns what \<open>.get(self.cache_name, None)\<close> gives (\<open>None\<close> is Python's
  \<open>None\<close>) when the hash is a key; on the \<open>KeyError\<close> it stores an empty dictionary under
  the hash and returns an empty dictionary.
\<close>

definition get_from_cache :: "cache \<Rightarrow> parser \<Rightarrow> cache \<times> dict option" where
  "get_from_cache c p =
     (case c (ua_hash p) of
        Some entry \<Rightarrow> (c, entry (cache_name p))
      | None \<Rightarrow> (c(ua_hash p \<mapsto> Map.empty), Some []))"

definition add_to_cache :: "cache \<Rightarrow> parser \<Rightarrow> error + cache \<times> dict" where
  "add_to_cache c p =
     (case c (ua_hash p) of
        None \<Rightarrow> Inl KeyError
      | Some entry \<Rightarrow> Inr (c(ua_hash p \<mapsto> entry(cache_name p \<mapsto> ua_data p)), ua_data p))"

text \<open>The loop of \<open>_parse\<close> over the rules, and \<open>_parse\<close>.\<close>

fun parse_rules :: "rule list \<Rightarrow> parser \<Rightarrow> parser" where
  "parse_rules [] p = p"
| "parse_rules (r # rs) p =
     (case regex r (user_agent p) of
        Some matched \<Rightarrow>
          p\<lparr> matched_regex := Some matched,
             ua_data := dict_merge (ua_data p) (rest r),
             known := True \<rparr>
      | None \<Rightarrow> parse_rules rs p)"

definition Parser__parse :: "parser \<Rightarrow> parser" where
  "Parser__parse p = parse_rules (regex_list p) p"

text \<open>
  \<open>extract_version\<close>: the loop over \<open>self.ua_data.pop('versions', [])\<close>, which returns at
  the first sub-rule whose pattern is found in the user agent. Of the other values
  that \<open>'versions'\<close> could hold, an empty string and an empty dictionary give a loop
  without a step; \<open>None\<close> and an integer cannot be iterated, and the items of a string
  or the keys of a dictionary cannot be indexed with \<open>'regex'\<close>.
\<close>

fun first_version :: "(regex \<times> val) list \<Rightarrow> string \<Rightarrow> val option" where
  "first_version [] ua = None"
| "first_version ((rx, v) # vs) ua =
     (case rx ua of Some m \<Rightarrow> Some v | None \<Rightarrow> first_version vs ua)"

definition extract_version :: "parser \<Rightarrow> error + parser" where
  "extract_version p =
     (case map_of (ua_data p) ''versions'' of
        None \<Rightarrow> Inr p
      | Some (Versions vs) \<Rightarrow>
          (let d = dict_del (ua_data p) ''versions'' in
           case first_version vs (user_agent p) of
             None \<Rightarrow> Inr (p\<lparr>ua_data := d\<rparr>)
           | Some v \<Rightarrow> Inr (p\<lparr>ua_data := dict_set d ''version'' v\<rparr>))
      | Some (Str s) \<Rightarrow>
          if s = [] then Inr (p\<lparr>ua_data := dict_del (ua_data p) ''versions''\<rparr>)
          else Inl TypeError
      | Some (Dict kvs) \<Rightarrow>
          if kvs = [] then Inr (p\<lparr>ua_data := dict_del (ua_data p) ''versions''\<rparr>)
          else Inl TypeError
      | Some _ \<Rightarrow> Inl TypeError)"

text \<open>
  \<open>Parser.set_details\<close>. \<open>groups\<close> is \<open>None\<close> when nothing matched or the match has no
  group.
\<close>

definition set_details :: "extractors \<Rightarrow> parser \<Rightarrow> parser" where
  "set_details X p =
     (let groups = (case matched_regex p of
                      None \<Rightarrow> None
                    | Some g \<Rightarrow> if g \<noteq> [] then Some g else None);
          d0 = ua_data p;
          d2 = (case groups of
                  None \<Rightarrow> d0
                | Some g \<Rightarrow>
                    let d1 = (if dict_in ''name'' d0
                              then dict_set d0 ''name'' (NameExtractor X d0 g) else d0)
                    in if dict_in ''version'' d1
                       then dict_set d1 ''version'' (VersionExtractor X d1 g) else d1)
      in if \<not> truthy (dict_get d2 ''name'' NoneV) \<and> truthy (dict_get d2 ''version'' NoneV)
         then p\<lparr>ua_data := dict_set d2 ''version'' (Str [])\<rparr>
         else p\<lparr>ua_data := d2\<rparr>)"

text \<open>
  \<open>extract_details\<close> and \<open>parse\<close> call \<open>self._parse()\<close> and \<open>self.set_details()\<close>, which
  subclasses override: the two methods of the object's class are arguments.
\<close>

definition extract_details_with ::
  "(cache \<Rightarrow> parser \<Rightarrow> error + cache \<times> parser) \<Rightarrow> cache \<Rightarrow> parser \<Rightarrow> error + cache \<times> parser" where
  "extract_details_with set_details_m c p =
     (case extract_version p of
        Inl e \<Rightarrow> Inl e
      | Inr p1 \<Rightarrow>
          (case set_details_m c p1 of
             Inl e \<Rightarrow> Inl e
           | Inr (c2, p2) \<Rightarrow>
               (case add_to_cache c2 p2 of
                  Inl e \<Rightarrow> Inl e
                | Inr (c3, d) \<Rightarrow> Inr (c3, p2))))"

definition parse_with ::
  "(parser \<Rightarrow> parser) \<Rightarrow> (cache \<Rightarrow> parser \<Rightarrow> error + cache \<times> parser) \<Rightarrow> cache \<Rightarrow> parser
    \<Rightarrow> error + cache \<times> parser" where
  "parse_with parse_m set_details_m c p =
     (case get_from_cache c p of
        (c1, details) \<Rightarrow>
          if (case details of None \<Rightarrow> False | Some d \<Rightarrow> d \<noteq> []) then Inr (c1, p)
          else extract_details_with set_details_m c1 (parse_m p))"

text \<open>The methods as \<open>Parser\<close> itself has them.\<close>

definition Parser_set_details :: "extractors \<Rightarrow> cache \<Rightarrow> parser \<Rightarrow> error + cache \<times> parser" where
  "Parser_set_details X c p = Inr (c, set_details X p)"

definition extract_details :: "extractors \<Rightarrow> cache \<Rightarrow> parser \<Rightarrow> error + cache \<times> parser" where
  "extract_details X = extract_details_with (Parser_set_details X)"

definition parse :: "extractors \<Rightarrow> cache \<Rightarrow> parser \<Rightarrow> error + cache \<times> parser" where
  "parse X = parse_with Parser__parse (Parser_set_details X)"

definition name :: "parser \<Rightarrow> val" where
  "name p = dict_get (ua_data p) ''name'' (Str [])"

definition version :: "parser \<Rightarrow> val" where
  "version p = dict_get (ua_data p) ''version'' (Str [])"

definition is_known :: "parser \<Rightarrow> bool" where
  "is_known p = (ua_data p \<noteq> [])"

section \<open>client/browser.py\<close>

text \<open>
  What browser.py takes from the rest of the package: the tables \<open>BROWSER_TO_ABBREV\<close> and
  \<open>FAMILY_FROM_ABBREV\<close> of settings.py, the rules and the cache name that \<open>RegexLoader\<close>
  gives the \<open>Engine\<close> class, and the search of \<open>EngineVersion.parse\<close> for the pattern it
  builds from \<open>BOUNDED_REGEX\<close> and the engine name (the text of the match).
  \<open>py_str\<close> is Python's formatting of a value that is not a string.
\<close>

record tables =
  BROWSER_TO_ABBREV :: "string \<rightharpoonup> string"
  FAMILY_FROM_ABBREV :: "string \<rightharpoonup> string"
  Engine_regex_list :: "rule list"
  Engine_cache_name :: string
  engine_regex_search :: "val \<Rightarrow> string \<Rightarrow> string option"
  py_str :: "val \<Rightarrow> string"

text \<open>\<open>DATE_VERSION = RegexLazy(r'^202[0-5]')\<close>, searched in a string.\<close>

definition DATE_VERSION_search :: "string \<Rightarrow> bool" where
  "DATE_VERSION_search s =
     (take 3 s = ''202'' \<and> 3 < length s \<and> s ! 3 \<in> set ''012345'')"

text \<open>\<open>s.lower()\<close> on the letters A to Z.\<close>

definition char_lower :: "char \<Rightarrow> char" where
  "char_lower c =
     (let n = (of_char c :: nat) in if 65 \<le> n \<and> n \<le> 90 then char_of (n + 32) else c)"

definition str_lower :: "string \<Rightarrow> string" where
  "str_lower s = map char_lower s"

text \<open>The value in an f-string.\<close>

definition format_val :: "tables \<Rightarrow> val \<Rightarrow> string" where
  "format_val T v = (case v of Str s \<Rightarrow> s | _ \<Rightarrow> py_str T v)"

text \<open>\<open>EngineVersion(user_agent).parse(engine)\<close>.\<close>

definition EngineVersion_parse :: "tables \<Rightarrow> string \<Rightarrow> val \<Rightarrow> string" where
  "EngineVersion_parse T ua engine =
     (if \<not> truthy engine then []
      else
        (case engine_regex_search T engine ua of
           Some engine_version \<Rightarrow>
             (case split_on (CHR ''/'') engine_version of
                a # b # bs \<Rightarrow> b
              | _ \<Rightarrow> [])
         | None \<Rightarrow> []))"

text \<open>
  \<open>Engine\<close> overrides \<open>_parse\<close>. Its base class \<open>BaseClientParser\<close> (client/__init__.py)
  lies outside parser.py and browser.py: \<open>Engine\<close> is modelled with the methods of
  \<open>Parser\<close> wherever browser.py does not override them.
\<close>

definition Engine__parse :: "tables \<Rightarrow> parser \<Rightarrow> parser" where
  "Engine__parse T p =
     (let p1 = Parser__parse p in
      if dict_in ''name'' (ua_data p1)
      then p1\<lparr>ua_data := dict_set (ua_data p1) ''engine_version''
                 (Str (EngineVersion_parse T (user_agent p1) (dict_get (ua_data p1) ''name'' NoneV)))\<rparr>
      else p1)"

definition Engine_parse :: "extractors \<Rightarrow> tables \<Rightarrow> cache \<Rightarrow> parser \<Rightarrow> error + cache \<times> parser" where
  "Engine_parse X T = parse_with (Engine__parse T) (Parser_set_details X)"

text \<open>
  Modelled from the spec: \<open>BaseClientParser.set_data_from_client_hints\<close>, which
  \<open>Browser.set_data_from_client_hints\<close> calls through \<open>super()\<close>, is defined in
  client/__init__.py, outside parser.py and browser.py. The spec (4.3, case 7): generic
  field-by-field overwrite of the UA record by any client-hint field that is present.
\<close>

definition Base_set_data_from_client_hints :: "parser \<Rightarrow> parser" where
  "Base_set_data_from_client_hints p =
     (case client_hints p of
        None \<Rightarrow> p
      | Some ch \<Rightarrow> p\<lparr>ua_data := dict_merge (ua_data p) (client_data ch)\<rparr>)"

text \<open>
  \<open>Browser.set_data_from_client_hints\<close>. \<open>DATE_VERSION.search\<close> raises on a version that
  is not a string.
\<close>

definition Browser_set_data_from_client_hints :: "tables \<Rightarrow> parser \<Rightarrow> error + parser" where
  "Browser_set_data_from_client_hints T p =
     (case client_hints p of
        None \<Rightarrow> Inr p
      | Some ch \<Rightarrow>
          let ch_data = client_data ch in
          if ua_data p = [] \<and> client_is_browser ch then Inr (p\<lparr>ua_data := ch_data\<rparr>)
          else if truthy (dict_get ch_data ''app_id'' NoneV)
          then Inr (p\<lparr>ua_data := dict_merge (ua_data p) ch_data\<rparr>)
          else
            let ch_name = py_or (dict_get ch_data ''name'' NoneV) (Str []);
                ch_version = py_or (dict_get ch_data ''version'' NoneV) (Str []);
                ua_name = dict_get (ua_data p) ''name'' (Str []);
                ua_short_name = dict_get (ua_data p) ''short_name'' (Str [])
            in
            if ch_name = Str ''DuckDuckGo Privacy Browser'' then
              let p1 = Base_set_data_from_client_hints p in
              Inr (p1\<lparr>ua_data :=
                     dict_set (dict_set (ua_data p1) ''version'' (Str []))
                       ''engine_version'' ch_version\<rparr>)
            else if truthy ua_name
                 \<and> (ch_name = Str ''Chromium'' \<or> ch_name = Str ''Chrome Webview'')
                 \<and> \<not> (ua_short_name = Str ''CR'' \<or> ua_short_name = Str ''CV''
                        \<or> ua_short_name = Str ''AN'')
            then
              (case ch_version of
                 Str v \<Rightarrow>
                   if DATE_VERSION_search v
                   then Inr (p\<lparr>ua_data :=
                               dict_set (dict_set (ua_data p) ''name'' (Str ''Iridium''))
                                 ''short_name'' (Str ''I1'')\<rparr>)
                   else Inr (p\<lparr>ua_data :=
                               dict_set
                                 (dict_set (dict_set (ua_data p) ''name'' ua_name)
                                    ''version'' (dict_get (ua_data p) ''version'' (Str [])))
                                 ''short_name'' ua_short_name\<rparr>)
               | _ \<Rightarrow> Inl TypeError)
            else
              let p1 = Base_set_data_from_client_hints p in
              if Str (format_val T ch_name @ '' Mobile'') = ua_name
              then Inr (p1\<lparr>ua_data :=
                          dict_set (dict_set (ua_data p1) ''name'' ua_name)
                            ''short_name'' ua_short_name\<rparr>)
              else Inr p1)"

text \<open>
  \<open>Browser.set_engine\<close>. The engine parser is a new object on the same user agent, hash
  and client hints; its \<open>parse\<close> goes through the shared cache. \<open>lower\<close> needs a string
  and \<open>get\<close>, \<open>items\<close> a dictionary.
\<close>

definition set_engine :: "extractors \<Rightarrow> tables \<Rightarrow> cache \<Rightarrow> parser \<Rightarrow> error + cache \<times> parser" where
  "set_engine X T c p =
     (if \<not> truthy (dict_get (ua_data p) ''engine'' (Str [])) then Inr (c, p)
      else
        (case dict_get (ua_data p) ''name'' (Str []) of
           Str browser \<Rightarrow>
             let abbreviation = (case BROWSER_TO_ABBREV T (str_lower browser) of
                                   None \<Rightarrow> browser | Some a \<Rightarrow> a);
                 family = (case FAMILY_FROM_ABBREV T abbreviation of
                             None \<Rightarrow> browser | Some f \<Rightarrow> f);
                 d1 = dict_merge (ua_data p)
                        [(''short_name'', Str abbreviation), (''family'', Str family)]
             in
             if \<not> dict_in ''engine'' d1 then
               (case Engine_parse X T c
                       (Parser_init (Engine_regex_list T) (Engine_cache_name T)
                          (user_agent p) (ua_hash p) (ua_spaceless p) (client_hints p) None) of
                  Inl e \<Rightarrow> Inl e
                | Inr (c1, parsed) \<Rightarrow>
                    Inr (c1, p\<lparr>ua_data := dict_set d1 ''engine'' (as_val (ua_data parsed))\<rparr>))
             else
               let client_version = py_or (dict_get (ch_client_data p) ''version'' (Str []))
                                      (dict_get d1 ''version'' (Str []));
                   engine = py_or (dict_get d1 ''engine'' NoneV) (Dict [])
               in
               (case engine of
                  Dict e \<Rightarrow>
                    (case dict_get e (Str ''versions'') (Dict []) of
                       Dict vs \<Rightarrow>
                         Inr (c, p\<lparr>ua_data :=
                                   foldl (\<lambda>d kv. dict_merge d
                                            [(''engine'', snd kv),
                                             (''engine_version'', client_version)])
                                     d1 vs\<rparr>)
                     | _ \<Rightarrow> Inl AttributeError)
                | _ \<Rightarrow> Inl AttributeError)
         | _ \<Rightarrow> Inl AttributeError))"

text \<open>\<open>Browser.short_name\<close>.\<close>

definition short_name :: "parser \<Rightarrow> val" where
  "short_name p = dict_get (ua_data p) ''short_name'' NoneV"

section \<open>Properties of records\<close>

text \<open>No version without a name: a record with a non-empty version has a non-empty name.\<close>

definition name_before_version :: "dict \<Rightarrow> bool" where
  "name_before_version d =
     (truthy (dict_get d ''version'' NoneV) \<longrightarrow> truthy (dict_get d ''name'' NoneV))"

text \<open>A version that begins with four digits of which the first three are 202.\<close>

definition begins_202_digit :: "string \<Rightarrow> bool" where
  "begins_202_digit s = (take 3 s = ''202'' \<and> 3 < length s \<and> s ! 3 \<in> set ''0123456789'')"

section \<open>Inputs of the examples\<close>

text \<open>
  A pattern without metacharacters and without groups: \<open>search\<close> finds it where the text
  occurs in the input.
\<close>

fun contains :: "string \<Rightarrow> string \<Rightarrow> bool" where
  "contains pat [] = (pat = [])"
| "contains pat (x # xs) = (take (length pat) (x # xs) = pat \<or> contains pat xs)"

definition literal :: "string \<Rightarrow> regex" where
  "literal pat s = (if contains pat s then Some [] else None)"

text \<open>Extractors that return the template as it is, and empty tables.\<close>

definition plain_extractors :: extractors where
  "plain_extractors =
     \<lparr> NameExtractor = (\<lambda>d g. dict_get d ''name'' NoneV),
       VersionExtractor = (\<lambda>d g. dict_get d ''version'' NoneV) \<rparr>"

definition no_tables :: tables where
  "no_tables =
     \<lparr> BROWSER_TO_ABBREV = Map.empty, FAMILY_FROM_ABBREV = Map.empty,
       Engine_regex_list = [], Engine_cache_name = ''engine'',
       engine_regex_search = (\<lambda>e ua. None), py_str = (\<lambda>v. []) \<rparr>"

definition chrome_mobile_rule :: rule where
  "chrome_mobile_rule =
     \<lparr> regex = literal ''Chrome Mobile'', rest = [(''name'', Str ''Chrome Mobile'')] \<rparr>"

definition chrome_rule :: rule where
  "chrome_rule = \<lparr> regex = literal ''Chrome'', rest = [(''name'', Str ''Chrome'')] \<rparr>"

text \<open>A new parser object on a user agent, as \<open>Parser(ua, ua_hash, ua_spaceless, None)\<close>.\<close>

definition new_parser :: "rule list \<Rightarrow> string \<Rightarrow> string \<Rightarrow> parser" where
  "new_parser rl ua h = Parser_init rl ''browser'' ua h (filter (\<lambda>c. c \<noteq> CHR '' '') ua) None None"

definition firefox_rule :: rule where
  "firefox_rule = \<lparr> regex = literal ''Firefox'', rest = [(''name'', Str ''Firefox'')] \<rparr>"

text \<open>
  A rule with version sub-rules, and the parser after \<open>_parse\<close> matched it on a user
  agent.
\<close>

definition windows_rule :: rule where
  "windows_rule =
     \<lparr> regex = literal ''Windows'',
       rest = [(''name'', Str ''Windows''), (''version'', Str ''NT''),
               (''versions'', Versions [(literal ''NT 6.1'', Str ''7''),
                                         (literal ''NT 10.0'', Str ''10'')])] \<rparr>"

text \<open>The same rule without a name.\<close>

definition nameless_windows_rule :: rule where
  "nameless_windows_rule =
     \<lparr> regex = literal ''Windows'',
       rest = [(''version'', Str ''NT''),
               (''versions'', Versions [(literal ''NT 6.1'', Str ''7''),
                                         (literal ''NT 10.0'', Str ''10'')])] \<rparr>"

definition windows_parser :: "string \<Rightarrow> parser" where
  "windows_parser ua = Parser__parse (new_parser [windows_rule] ua ''h'')"

text \<open>A rule of the engine rule set, and tables that hold it.\<close>

definition webkit_rule :: rule where
  "webkit_rule = \<lparr> regex = literal ''AppleWebKit'', rest = [(''name'', Str ''WebKit'')] \<rparr>"

definition engine_tables :: tables where
  "engine_tables = no_tables\<lparr>Engine_regex_list := [webkit_rule]\<rparr>"

text \<open>
  A browser parser during a parse: the record \<open>d\<close> it got from the user agent, and its
  client hints.
\<close>

definition browser_with :: "dict \<Rightarrow> client_hints \<Rightarrow> parser" where
  "browser_with d ch =
     (Parser_init [] ''browser'' ''Mozilla/5.0'' ''h'' ''Mozilla/5.0'' (Some ch) None)
       \<lparr>ua_data := d\<rparr>"

section \<open>Dictionaries and strings: basic facts\<close>

lemma split_on_nonempty: "split_on c s \<noteq> []"
  by (induction s) (auto split: list.splits)

lemma join_split_on: "join_with [c] (split_on c s) = s"
proof (induction s)
  case Nil
  show ?case by simp
next
  case (Cons x xs)
  show ?case
  proof (cases "x = c")
    case True
    obtain t ts where ts: "split_on c xs = t # ts"
      using split_on_nonempty [of c xs] by (cases "split_on c xs") auto
    with True Cons show ?thesis by simp
  next
    case False
    obtain t ts where ts: "split_on c xs = t # ts"
      using split_on_nonempty [of c xs] by (cases "split_on c xs") auto
    with False Cons show ?thesis by (cases ts) auto
  qed
qed

lemma build_version_minus_one: "build_version v (-1) = v"
  by (simp add: build_version_def)

lemma map_of_dict_set: "map_of (dict_set d k v) = (map_of d)(k \<mapsto> v)"
  by (induction d k v rule: dict_set.induct) (auto simp: fun_eq_iff)

lemma map_of_dict_merge:
  "distinct (map fst e) \<Longrightarrow> map_of (dict_merge d e) = map_of d ++ map_of e"
proof (induction d e rule: dict_merge.induct)
  case (1 d)
  show ?case by simp
next
  case (2 d k v e)
  then have k: "map_of e k = None"
    and IH: "map_of (dict_merge (dict_set d k v) e) = map_of (dict_set d k v) ++ map_of e"
    by (auto simp: map_of_eq_None_iff)
  show ?case
    unfolding dict_merge.simps IH map_of_dict_set using k
    by (auto simp: fun_eq_iff map_add_def split: option.splits)
qed

lemma map_of_dict_del: "map_of (dict_del d k) = (map_of d)(k := None)"
  by (induction d) (auto simp: dict_del_def fun_eq_iff)

lemma dict_get_set:
  "dict_get (dict_set d k v) k' dflt = (if k' = k then v else dict_get d k' dflt)"
  by (simp add: dict_get_def map_of_dict_set)

lemma dict_in_set: "dict_in k' (dict_set d k v) = (k' = k \<or> dict_in k' d)"
  by (simp add: dict_in_def map_of_dict_set)

lemma dict_get_merge:
  "distinct (map fst e) \<Longrightarrow>
   dict_get (dict_merge d e) k dflt = (if dict_in k e then dict_get e k dflt else dict_get d k dflt)"
  by (cases "map_of e k") (simp_all add: dict_get_def dict_in_def map_of_dict_merge map_add_def)

lemma dict_in_merge:
  "distinct (map fst e) \<Longrightarrow> dict_in k (dict_merge d e) = (dict_in k e \<or> dict_in k d)"
  by (cases "map_of e k") (simp_all add: dict_in_def map_of_dict_merge map_add_def)

lemma dict_set_nonempty: "dict_set d k v \<noteq> []"
  by (cases d) (auto split: if_splits)

section \<open>The cache lookup\<close>

text \<open>
  C10. A lookup is not read-only: for a hash that is not in the shared cache,
  \<open>get_from_cache\<close> stores an empty dictionary under the hash and returns an empty
  dictionary, so the cache has changed; a second lookup for the hash finds the entry,
  takes the \<open>.get\<close> path (which gives \<open>None\<close> for the cache name) and leaves the cache as
  it is. A \<open>parse\<close> on such a hash, when it returns, returns a cache that has the hash.
\<close>

theorem get_from_cache_miss_inserts:
  assumes "c (ua_hash p) = None"
  shows "get_from_cache c p = (c(ua_hash p \<mapsto> Map.empty), Some [])
       \<and> fst (get_from_cache c p) \<noteq> c
       \<and> get_from_cache (fst (get_from_cache c p)) p = (fst (get_from_cache c p), None)
       \<and> (\<forall>c' p'. parse X c p = Inr (c', p') \<longrightarrow> c' (ua_hash p) \<noteq> None)"
proof -
  have 1: "get_from_cache c p = (c(ua_hash p \<mapsto> Map.empty), Some [])"
    using assms by (simp add: get_from_cache_def)
  have 2: "fst (get_from_cache c p) \<noteq> c"
    using assms unfolding 1 by (auto simp: fun_eq_iff)
  have 3: "get_from_cache (fst (get_from_cache c p)) p = (fst (get_from_cache c p), None)"
    unfolding 1 by (simp add: get_from_cache_def)
  have 4: "c' (ua_hash p) \<noteq> None" if "parse X c p = Inr (c', p')" for c' p'
    using that unfolding parse_def parse_with_def 1
    by (auto simp: extract_details_with_def Parser_set_details_def add_to_cache_def
          split: sum.splits option.splits prod.splits if_splits)
  from 1 2 3 4 show ?thesis by blast
qed

theorem get_from_cache_miss_inserts_witness:
  "(Map.empty :: cache) (ua_hash (new_parser [] ''ua'' ''h'')) = None
   \<and> get_from_cache Map.empty (new_parser [] ''ua'' ''h'') = ([''h'' \<mapsto> Map.empty], Some [])
   \<and> get_from_cache [''h'' \<mapsto> Map.empty] (new_parser [] ''ua'' ''h'')
       = ([''h'' \<mapsto> Map.empty], None)"
  using get_from_cache_miss_inserts [of Map.empty "new_parser [] ''ua'' ''h''" plain_extractors]
  by (simp add: new_parser_def Parser_init_def get_from_cache_def)

section \<open>The matcher\<close>

lemma parse_rules_find:
  "parse_rules rs p =
     (case find (\<lambda>r. regex r (user_agent p) \<noteq> None) rs of
        None \<Rightarrow> p
      | Some r \<Rightarrow> p\<lparr> matched_regex := regex r (user_agent p),
                     ua_data := dict_merge (ua_data p) (rest r),
                     known := True \<rparr>)"
  by (induction rs) (auto split: option.splits)

lemma parse_rules_skip:
  "list_all (\<lambda>q. regex q (user_agent p) = None) pre \<Longrightarrow>
   parse_rules (pre @ rs) p = parse_rules rs p"
  by (induction pre) auto

lemma parse_rules_none:
  "list_all (\<lambda>r. regex r (user_agent p) = None) rs \<Longrightarrow> parse_rules rs p = p"
  by (induction rs) auto

text \<open>
  C3. \<open>_parse\<close> goes through the rules in their order and takes the first one whose
  pattern is found in the user agent: its match, its items and \<open>known = True\<close> are what
  the parser gets, and nothing else changes. The rules after it have no part in the
  result: whatever \<open>post\<close> holds, a list \<open>pre @ r # post\<close> in which no rule of \<open>pre\<close>
  matches and \<open>r\<close> does gives the record of \<open>r\<close>. On a user agent that contains
  "Chrome Mobile", and so "Chrome", the list with the rule for "Chrome Mobile" first names
  the browser Chrome Mobile and the list with the rule for "Chrome" first names it Chrome.
\<close>

theorem Parser__parse_first_match:
  "Parser__parse p =
     (case find (\<lambda>r. regex r (user_agent p) \<noteq> None) (regex_list p) of
        None \<Rightarrow> p
      | Some r \<Rightarrow> p\<lparr> matched_regex := regex r (user_agent p),
                     ua_data := dict_merge (ua_data p) (rest r),
                     known := True \<rparr>)
   \<and> (list_all (\<lambda>q. regex q (user_agent p) = None) pre \<longrightarrow>
      regex r (user_agent p) \<noteq> None \<longrightarrow>
        parse_rules (pre @ r # post) p =
          p\<lparr> matched_regex := regex r (user_agent p),
             ua_data := dict_merge (ua_data p) (rest r),
             known := True \<rparr>)
   \<and> name (Parser__parse
              (new_parser [chrome_mobile_rule, chrome_rule] ''Mozilla/5.0 Chrome Mobile'' ''h''))
        = Str ''Chrome Mobile''
   \<and> name (Parser__parse
              (new_parser [chrome_rule, chrome_mobile_rule] ''Mozilla/5.0 Chrome Mobile'' ''h''))
        = Str ''Chrome''"
proof -
  have 1: "Parser__parse p =
     (case find (\<lambda>r. regex r (user_agent p) \<noteq> None) (regex_list p) of
        None \<Rightarrow> p
      | Some r \<Rightarrow> p\<lparr> matched_regex := regex r (user_agent p),
                     ua_data := dict_merge (ua_data p) (rest r),
                     known := True \<rparr>)"
    unfolding Parser__parse_def by (rule parse_rules_find)
  have 2: "parse_rules (pre @ r # post) p =
          p\<lparr> matched_regex := regex r (user_agent p),
             ua_data := dict_merge (ua_data p) (rest r),
             known := True \<rparr>"
    if "list_all (\<lambda>q. regex q (user_agent p) = None) pre" "regex r (user_agent p) \<noteq> None"
    using that by (auto simp: parse_rules_skip)
  have 3: "name (Parser__parse
              (new_parser [chrome_mobile_rule, chrome_rule] ''Mozilla/5.0 Chrome Mobile'' ''h''))
        = Str ''Chrome Mobile''"
    by (simp add: Parser__parse_def new_parser_def Parser_init_def chrome_mobile_rule_def
        chrome_rule_def literal_def name_def dict_get_def)
  have 4: "name (Parser__parse
              (new_parser [chrome_rule, chrome_mobile_rule] ''Mozilla/5.0 Chrome Mobile'' ''h''))
        = Str ''Chrome''"
    by (simp add: Parser__parse_def new_parser_def Parser_init_def chrome_mobile_rule_def
        chrome_rule_def literal_def name_def dict_get_def)
  from 1 2 3 4 show ?thesis by blast
qed

theorem Parser__parse_first_match_witness:
  "list_all (\<lambda>q. regex q ''Mozilla/5.0 Chrome Mobile'' = None) [firefox_rule]
   \<and> regex chrome_mobile_rule ''Mozilla/5.0 Chrome Mobile'' \<noteq> None
   \<and> ua_data (parse_rules ([firefox_rule] @ chrome_mobile_rule # [chrome_rule])
                (new_parser [] ''Mozilla/5.0 Chrome Mobile'' ''h''))
        = [(''name'', Str ''Chrome Mobile'')]
   \<and> known (parse_rules ([firefox_rule] @ chrome_mobile_rule # [chrome_rule])
              (new_parser [] ''Mozilla/5.0 Chrome Mobile'' ''h''))"
  using Parser__parse_first_match
    [of "new_parser [] ''Mozilla/5.0 Chrome Mobile'' ''h''" "[firefox_rule]" chrome_mobile_rule
        "[chrome_rule]"]
  by (simp add: new_parser_def Parser_init_def firefox_rule_def chrome_mobile_rule_def
      literal_def)

section \<open>Version sub-rules\<close>

lemma first_version_skip:
  "list_all (\<lambda>sv. fst sv ua = None) pre \<Longrightarrow> first_version (pre @ vs) ua = first_version vs ua"
  by (induction pre) auto

lemma first_version_none:
  "list_all (\<lambda>sv. fst sv ua = None) vs \<Longrightarrow> first_version vs ua = None"
  by (induction vs) auto

section \<open>Input that no rule matches\<close>

text \<open>
  C9. When no rule of the rule set matches the user agent, \<open>parse\<close> on a new parser
  object returns (it does not raise, whatever the cache holds), and the parser it returns
  is not known: \<open>known\<close> is false, \<open>is_known()\<close> is false, the record is empty, and
  \<open>name()\<close> and \<open>version()\<close> are the empty string.
\<close>

theorem parse_no_match_unknown:
  assumes "list_all (\<lambda>r. regex r ua = None) rl"
  shows "\<exists>c' p'. parse X c (Parser_init rl cn ua h sp ch os) = Inr (c', p')
           \<and> \<not> known p' \<and> \<not> is_known p' \<and> ua_data p' = []
           \<and> name p' = Str [] \<and> version p' = Str []"
proof -
  let ?p = "Parser_init rl cn ua h sp ch os"
  have ua: "user_agent ?p = ua" "regex_list ?p = rl" "ua_data ?p = []" "matched_regex ?p = None"
    "\<not> known ?p"
    by (simp_all add: Parser_init_def)
  have P: "Parser__parse ?p = ?p"
    unfolding Parser__parse_def using assms parse_rules_none [of ?p rl] by (simp add: ua)
  have V: "extract_version ?p = Inr ?p"
    by (simp add: extract_version_def ua)
  have S: "set_details X ?p = ?p"
    by (simp add: set_details_def ua dict_get_def)
  have fields: "\<not> is_known ?p" "name ?p = Str []" "version ?p = Str []"
    by (simp_all add: is_known_def name_def version_def dict_get_def ua)
  have "\<exists>c'. parse X c ?p = Inr (c', ?p)"
    unfolding parse_def parse_with_def extract_details_with_def P V
    by (auto simp: get_from_cache_def Parser_set_details_def S add_to_cache_def ua
          split: option.splits)
  with fields ua show ?thesis by blast
qed

theorem parse_no_match_unknown_witness:
  "list_all (\<lambda>r. regex r ''curl/8.4.0'' = None) [chrome_mobile_rule, chrome_rule]
   \<and> (\<exists>c' p'. parse plain_extractors Map.empty
                 (Parser_init [chrome_mobile_rule, chrome_rule] ''browser'' ''curl/8.4.0'' ''h''
                    ''curl/8.4.0'' None None) = Inr (c', p')
           \<and> \<not> known p' \<and> \<not> is_known p' \<and> ua_data p' = []
           \<and> name p' = Str [] \<and> version p' = Str [])"
proof -
  have h: "list_all (\<lambda>r. regex r ''curl/8.4.0'' = None) [chrome_mobile_rule, chrome_rule]"
    by (simp add: chrome_mobile_rule_def chrome_rule_def literal_def)
  from parse_no_match_unknown [OF h, of plain_extractors Map.empty "''browser''" "''h''"
      "''curl/8.4.0''" None None] h
  show ?thesis by blast
qed

section \<open>The cache and the result of \<open>parse\<close>\<close>

lemma parse_rules_keys:
  "ua_hash (parse_rules rs p) = ua_hash p \<and> cache_name (parse_rules rs p) = cache_name p"
  by (induction rs) (auto split: option.splits)

lemma extract_version_keys:
  "extract_version p = Inr q \<Longrightarrow> ua_hash q = ua_hash p \<and> cache_name q = cache_name p"
  by (auto simp: extract_version_def Let_def split: option.splits val.splits if_splits)

lemma set_details_keys:
  "ua_hash (set_details X p) = ua_hash p \<and> cache_name (set_details X p) = cache_name p"
  by (simp add: set_details_def Let_def)

lemma parse_with_warm:
  "c (ua_hash p) = Some e \<Longrightarrow> e (cache_name p) = Some d \<Longrightarrow> d \<noteq> [] \<Longrightarrow>
   parse_with pm sm c p = Inr (c, p)"
  by (simp add: parse_with_def get_from_cache_def)

lemma parse_caches_record:
  assumes "parse X c p = Inr (c1, p1)" "ua_data p = []" "ua_data p1 \<noteq> []"
  shows "\<exists>e. c1 (ua_hash p) = Some e \<and> e (cache_name p) = Some (ua_data p1)"
proof -
  obtain c0 details where g: "get_from_cache c p = (c0, details)"
    by (cases "get_from_cache c p")
  have cold: "\<not> (case details of None \<Rightarrow> False | Some d \<Rightarrow> d \<noteq> [])"
    using assms g by (auto simp: parse_def parse_with_def)
  have ed: "extract_details_with (Parser_set_details X) c0 (Parser__parse p) = Inr (c1, p1)"
    using assms(1) g cold by (simp add: parse_def parse_with_def)
  obtain q where q: "extract_version (Parser__parse p) = Inr q"
    using ed by (cases "extract_version (Parser__parse p)") (simp_all add: extract_details_with_def)
  have "(case add_to_cache c0 (set_details X q) of
           Inl e \<Rightarrow> Inl e | Inr (c3, d) \<Rightarrow> Inr (c3, set_details X q)) = Inr (c1, p1)"
    using ed q by (simp add: extract_details_with_def Parser_set_details_def)
  then obtain d where a: "add_to_cache c0 (set_details X q) = Inr (c1, d)" "p1 = set_details X q"
    by (cases "add_to_cache c0 (set_details X q)") auto
  have k: "ua_hash p1 = ua_hash p" "cache_name p1 = cache_name p"
    using a(2) set_details_keys [of X q] extract_version_keys [OF q]
      parse_rules_keys [of "regex_list p" p]
    by (simp_all add: Parser__parse_def)
  show ?thesis
    using a(1) k unfolding a(2) [symmetric]
    by (auto simp: add_to_cache_def split: option.splits)
qed

text \<open>
  C1 states that \<open>parse\<close> gives the same record with a cold cache and with the cache
  warm from a first call. The code does not: \<open>parse\<close> reads the cached record into
  \<open>details\<close> and returns \<open>self\<close> without storing it. Whenever a \<open>parse\<close> on a new parser
  object (empty \<open>ua_data\<close>) returns a record that is not empty, the same \<open>parse\<close> on the
  same new object with the cache of that first call returns the object as it was: its
  record is empty, \<open>is_known()\<close> is false, \<open>name()\<close> and \<open>version()\<close> are the empty string,
  while the first call's \<open>is_known()\<close> is true.
\<close>

theorem parse_warm_cache_returns_empty_record:
  assumes "parse X c p = Inr (c1, p1)" "ua_data p = []" "ua_data p1 \<noteq> []"
  shows "parse X c1 p = Inr (c1, p) \<and> is_known p1 \<and> \<not> is_known p
         \<and> name p = Str [] \<and> version p = Str []"
proof -
  obtain e where "c1 (ua_hash p) = Some e" "e (cache_name p) = Some (ua_data p1)"
    using parse_caches_record [OF assms] by blast
  then have "parse X c1 p = Inr (c1, p)"
    unfolding parse_def using assms(3) by (rule parse_with_warm)
  then show ?thesis
    using assms by (simp add: is_known_def name_def version_def dict_get_def)
qed

theorem parse_warm_cache_returns_empty_record_witness:
  "parse plain_extractors Map.empty (new_parser [chrome_rule] ''Mozilla/5.0 Chrome/120.0'' ''h'')
     = Inr ([''h'' \<mapsto> [''browser'' \<mapsto> [(''name'', Str ''Chrome'')]]],
            (new_parser [chrome_rule] ''Mozilla/5.0 Chrome/120.0'' ''h'')
              \<lparr>ua_data := [(''name'', Str ''Chrome'')], matched_regex := Some [], known := True\<rparr>)
   \<and> parse plain_extractors [''h'' \<mapsto> [''browser'' \<mapsto> [(''name'', Str ''Chrome'')]]]
        (new_parser [chrome_rule] ''Mozilla/5.0 Chrome/120.0'' ''h'')
     = Inr ([''h'' \<mapsto> [''browser'' \<mapsto> [(''name'', Str ''Chrome'')]]],
            new_parser [chrome_rule] ''Mozilla/5.0 Chrome/120.0'' ''h'')
   \<and> name ((new_parser [chrome_rule] ''Mozilla/5.0 Chrome/120.0'' ''h'')
              \<lparr>ua_data := [(''name'', Str ''Chrome'')], matched_regex := Some [], known := True\<rparr>)
       = Str ''Chrome''
   \<and> name (new_parser [chrome_rule] ''Mozilla/5.0 Chrome/120.0'' ''h'') = Str []"
proof -
  let ?p = "new_parser [chrome_rule] ''Mozilla/5.0 Chrome/120.0'' ''h''"
  let ?c1 = "[''h'' \<mapsto> [''browser'' \<mapsto> [(''name'', Str ''Chrome'')]]]"
  let ?p1 = "?p\<lparr>ua_data := [(''name'', Str ''Chrome'')], matched_regex := Some [],
                known := True\<rparr>"
  have cold: "parse plain_extractors Map.empty ?p = Inr (?c1, ?p1)"
    by (simp add: parse_def parse_with_def get_from_cache_def Parser__parse_def new_parser_def
        Parser_init_def chrome_rule_def literal_def extract_details_with_def extract_version_def
        Parser_set_details_def set_details_def dict_get_def add_to_cache_def Let_def)
  have e: "ua_data ?p = []" "ua_data ?p1 \<noteq> []"
    by (simp_all add: new_parser_def Parser_init_def)
  from parse_warm_cache_returns_empty_record [OF cold e] cold show ?thesis
    by (simp add: name_def dict_get_def)
qed

section \<open>Version sub-rules and the version of the record\<close>

lemma extract_details_after_version:
  assumes "extract_version p = Inr p1" "c (ua_hash p) = Some e"
  shows "extract_details X c p
          = Inr (c(ua_hash p \<mapsto> e(cache_name p \<mapsto> ua_data (set_details X p1))), set_details X p1)"
proof -
  have k: "ua_hash (set_details X p1) = ua_hash p" "cache_name (set_details X p1) = cache_name p"
    using set_details_keys [of X p1] extract_version_keys [OF assms(1)] by simp_all
  show ?thesis
    using assms k
    by (simp add: extract_details_def extract_details_with_def Parser_set_details_def
          add_to_cache_def)
qed

lemma set_details_no_groups:
  assumes "matched_regex p = None \<or> matched_regex p = Some []"
  shows "ua_data (set_details X p)
          = (if \<not> truthy (dict_get (ua_data p) ''name'' NoneV)
                \<and> truthy (dict_get (ua_data p) ''version'' NoneV)
             then dict_set (ua_data p) ''version'' (Str []) else ua_data p)"
  using assms by (auto simp: set_details_def Let_def)

lemma set_details_groups:
  assumes "matched_regex p = Some g" "g \<noteq> []" "dict_in ''version'' (ua_data p)"
  shows "version (set_details X p)
          = (let d1 = (if dict_in ''name'' (ua_data p)
                       then dict_set (ua_data p) ''name'' (NameExtractor X (ua_data p) g)
                       else ua_data p)
             in if \<not> truthy (dict_get d1 ''name'' NoneV) \<and> truthy (VersionExtractor X d1 g)
                then Str [] else VersionExtractor X d1 g)"
  using assms
  by (auto simp: set_details_def Let_def version_def dict_get_set dict_in_set)

text \<open>
  C8, as the code has it. \<open>extract_details\<close> runs \<open>extract_version\<close>, then
  \<open>set_details\<close>, then stores the record in the cache. When the record holds version
  sub-rules, their patterns are tried on the whole user agent in their order, whatever
  the capture groups of the main match: with the sub-rules \<open>pre @ (rx, v) # post\<close>, none
  of \<open>pre\<close> matching and \<open>rx\<close> matching, the fixed version \<open>v\<close> takes the place of the
  rule's version template and the sub-rules are removed; when no sub-rule matches, the
  template stays. \<open>set_details\<close> then works on that value. If the main match has no
  capture group, the version of the final record is \<open>v\<close>, except that a non-empty \<open>v\<close> in
  a record without a non-empty name is cleared to the empty string. If the main match
  has capture groups, the version is what \<open>VersionExtractor\<close> makes of the record that
  holds \<open>v\<close>, cleared to the empty string in the same way.
\<close>

theorem extract_details_sub_rule_version:
  assumes "c (ua_hash p) = Some e"
  shows
  "(map_of (ua_data p) ''versions'' = Some (Versions (pre @ (rx, v) # post)) \<longrightarrow>
      list_all (\<lambda>sv. fst sv (user_agent p) = None) pre \<longrightarrow> rx (user_agent p) \<noteq> None \<longrightarrow>
      (let d = dict_set (dict_del (ua_data p) ''versions'') ''version'' v;
           q = set_details X (p\<lparr>ua_data := d\<rparr>)
       in extract_details X c p
            = Inr (c(ua_hash p \<mapsto> e(cache_name p \<mapsto> ua_data q)), q)
          \<and> ((matched_regex p = None \<or> matched_regex p = Some []) \<longrightarrow>
                version q = (if truthy v \<and> \<not> truthy (dict_get (ua_data p) ''name'' NoneV)
                             then Str [] else v))
          \<and> (\<forall>g. matched_regex p = Some g \<longrightarrow> g \<noteq> [] \<longrightarrow>
                version q
                  = (let d1 = (if dict_in ''name'' d
                               then dict_set d ''name'' (NameExtractor X d g) else d)
                     in if \<not> truthy (dict_get d1 ''name'' NoneV)
                           \<and> truthy (VersionExtractor X d1 g)
                        then Str [] else VersionExtractor X d1 g))))
   \<and> (map_of (ua_data p) ''versions'' = Some (Versions vs) \<longrightarrow>
      list_all (\<lambda>sv. fst sv (user_agent p) = None) vs \<longrightarrow>
      (let q = set_details X (p\<lparr>ua_data := dict_del (ua_data p) ''versions''\<rparr>)
       in extract_details X c p
            = Inr (c(ua_hash p \<mapsto> e(cache_name p \<mapsto> ua_data q)), q)
          \<and> ((matched_regex p = None \<or> matched_regex p = Some []) \<longrightarrow>
                version q = (if truthy (dict_get (ua_data p) ''version'' NoneV)
                                \<and> \<not> truthy (dict_get (ua_data p) ''name'' NoneV)
                             then Str [] else version p))))
   \<and> extract_version (p\<lparr>matched_regex := g'\<rparr>)
        = map_sum id (\<lambda>q. q\<lparr>matched_regex := g'\<rparr>) (extract_version p)"
proof -
  let ?dd = "dict_del (ua_data p) ''versions''"
  have nm: "dict_get ?dd ''name'' NoneV = dict_get (ua_data p) ''name'' NoneV"
    and vr: "dict_get ?dd ''version'' dflt = dict_get (ua_data p) ''version'' dflt" for dflt
    by (simp_all add: dict_get_def map_of_dict_del)
  have 1: "(let d = dict_set ?dd ''version'' v;
           q = set_details X (p\<lparr>ua_data := d\<rparr>)
       in extract_details X c p
            = Inr (c(ua_hash p \<mapsto> e(cache_name p \<mapsto> ua_data q)), q)
          \<and> ((matched_regex p = None \<or> matched_regex p = Some []) \<longrightarrow>
                version q = (if truthy v \<and> \<not> truthy (dict_get (ua_data p) ''name'' NoneV)
                             then Str [] else v))
          \<and> (\<forall>g. matched_regex p = Some g \<longrightarrow> g \<noteq> [] \<longrightarrow>
                version q
                  = (let d1 = (if dict_in ''name'' d
                               then dict_set d ''name'' (NameExtractor X d g) else d)
                     in if \<not> truthy (dict_get d1 ''name'' NoneV)
                           \<and> truthy (VersionExtractor X d1 g)
                        then Str [] else VersionExtractor X d1 g)))"
    if h: "map_of (ua_data p) ''versions'' = Some (Versions (pre @ (rx, v) # post))"
       "list_all (\<lambda>sv. fst sv (user_agent p) = None) pre" "rx (user_agent p) \<noteq> None"
  proof -
    let ?d = "dict_set ?dd ''version'' v"
    let ?p1 = "p\<lparr>ua_data := ?d\<rparr>"
    have ev: "extract_version p = Inr ?p1"
      using h by (auto simp: extract_version_def first_version_skip)
    have a: "extract_details X c p
            = Inr (c(ua_hash p \<mapsto> e(cache_name p \<mapsto> ua_data (set_details X ?p1))),
                   set_details X ?p1)"
      using extract_details_after_version [where c = c and e = e, OF ev assms] .
    have b: "version (set_details X ?p1)
               = (if truthy v \<and> \<not> truthy (dict_get (ua_data p) ''name'' NoneV)
                  then Str [] else v)"
      if "matched_regex p = None \<or> matched_regex p = Some []"
    proof -
      have "matched_regex ?p1 = None \<or> matched_regex ?p1 = Some []" using that by simp
      from set_details_no_groups [OF this, of X] show ?thesis
        by (auto simp: version_def dict_get_set nm)
    qed
    have c: "version (set_details X ?p1)
                  = (let d1 = (if dict_in ''name'' ?d
                               then dict_set ?d ''name'' (NameExtractor X ?d g) else ?d)
                     in if \<not> truthy (dict_get d1 ''name'' NoneV)
                           \<and> truthy (VersionExtractor X d1 g)
                        then Str [] else VersionExtractor X d1 g)"
      if "matched_regex p = Some g" "g \<noteq> []" for g
    proof -
      have "matched_regex ?p1 = Some g" "dict_in ''version'' (ua_data ?p1)"
        using that by (simp_all add: dict_in_set)
      from set_details_groups [OF this(1) that(2) this(2), of X] show ?thesis by simp
    qed
    from a b c show ?thesis unfolding Let_def by blast
  qed
  have 2: "(let q = set_details X (p\<lparr>ua_data := ?dd\<rparr>)
       in extract_details X c p
            = Inr (c(ua_hash p \<mapsto> e(cache_name p \<mapsto> ua_data q)), q)
          \<and> ((matched_regex p = None \<or> matched_regex p = Some []) \<longrightarrow>
                version q = (if truthy (dict_get (ua_data p) ''version'' NoneV)
                                \<and> \<not> truthy (dict_get (ua_data p) ''name'' NoneV)
                             then Str [] else version p)))"
    if h: "map_of (ua_data p) ''versions'' = Some (Versions vs)"
       "list_all (\<lambda>sv. fst sv (user_agent p) = None) vs"
  proof -
    let ?p1 = "p\<lparr>ua_data := ?dd\<rparr>"
    have ev: "extract_version p = Inr ?p1"
      using h by (simp add: extract_version_def first_version_none)
    have a: "extract_details X c p
            = Inr (c(ua_hash p \<mapsto> e(cache_name p \<mapsto> ua_data (set_details X ?p1))),
                   set_details X ?p1)"
      using extract_details_after_version [where c = c and e = e, OF ev assms] .
    have b: "version (set_details X ?p1)
               = (if truthy (dict_get (ua_data p) ''version'' NoneV)
                                \<and> \<not> truthy (dict_get (ua_data p) ''name'' NoneV)
                             then Str [] else version p)"
      if "matched_regex p = None \<or> matched_regex p = Some []"
    proof -
      have "matched_regex ?p1 = None \<or> matched_regex ?p1 = Some []" using that by simp
      from set_details_no_groups [OF this, of X] show ?thesis
        by (auto simp: version_def dict_get_set nm vr)
    qed
    from a b show ?thesis unfolding Let_def by blast
  qed
  have 3: "extract_version (p\<lparr>matched_regex := g'\<rparr>)
        = map_sum id (\<lambda>q. q\<lparr>matched_regex := g'\<rparr>) (extract_version p)"
    by (simp add: extract_version_def Let_def split: option.splits val.splits)
  from 1 2 3 show ?thesis by blast
qed

text \<open>
  A rule with a version and sub-rules and no name, on a user agent of Windows NT 10.0:
  \<open>extract_version\<close> sets the version "10" of the matching sub-rule, and the record that
  \<open>parse\<close> returns has the empty string as its version.
\<close>

theorem sub_rule_version_cleared_without_name:
  "map_sum id version
     (extract_version
        (Parser__parse (new_parser [nameless_windows_rule] ''Mozilla/5.0 (Windows NT 10.0)'' ''h'')))
     = Inr (Str ''10'')
   \<and> map_sum id (\<lambda>r. version (snd r))
       (parse plain_extractors Map.empty
          (new_parser [nameless_windows_rule] ''Mozilla/5.0 (Windows NT 10.0)'' ''h''))
     = Inr (Str [])"
  by (simp add: parse_def parse_with_def get_from_cache_def Parser__parse_def new_parser_def
        Parser_init_def nameless_windows_rule_def literal_def extract_details_with_def
        extract_version_def Parser_set_details_def set_details_def dict_get_def
        add_to_cache_def Let_def dict_del_def version_def)

theorem extract_details_sub_rule_version_witness:
  "map_of (ua_data (windows_parser ''Mozilla/5.0 (Windows NT 10.0)'')) ''versions''
     = Some (Versions ([(literal ''NT 6.1'', Str ''7'')] @ (literal ''NT 10.0'', Str ''10'') # []))
   \<and> literal ''NT 6.1'' ''Mozilla/5.0 (Windows NT 10.0)'' = None
   \<and> literal ''NT 10.0'' ''Mozilla/5.0 (Windows NT 10.0)'' \<noteq> None
   \<and> extract_details plain_extractors [''h'' \<mapsto> Map.empty]
        (windows_parser ''Mozilla/5.0 (Windows NT 10.0)'')
       = Inr ([''h'' \<mapsto> [''browser'' \<mapsto> [(''name'', Str ''Windows''), (''version'', Str ''10'')]]],
              (windows_parser ''Mozilla/5.0 (Windows NT 10.0)'')
                \<lparr>ua_data := [(''name'', Str ''Windows''), (''version'', Str ''10'')]\<rparr>)
   \<and> extract_details plain_extractors [''h'' \<mapsto> Map.empty]
        (windows_parser ''Mozilla/5.0 (Windows NT 5.1)'')
       = Inr ([''h'' \<mapsto> [''browser'' \<mapsto> [(''name'', Str ''Windows''), (''version'', Str ''NT'')]]],
              (windows_parser ''Mozilla/5.0 (Windows NT 5.1)'')
                \<lparr>ua_data := [(''name'', Str ''Windows''), (''version'', Str ''NT'')]\<rparr>)
   \<and> map_sum id (\<lambda>r. version (snd r))
       (parse plain_extractors Map.empty
          (new_parser [windows_rule] ''Mozilla/5.0 (Windows NT 10.0)'' ''h''))
     = Inr (Str ''10'')"
proof -
  let ?ua = "''Mozilla/5.0 (Windows NT 10.0)''"
  let ?ub = "''Mozilla/5.0 (Windows NT 5.1)''"
  let ?vs = "[(literal ''NT 6.1'', Str ''7''), (literal ''NT 10.0'', Str ''10'')]"
  let ?c = "[''h'' \<mapsto> Map.empty] :: cache"
  have wp: "ua_data (windows_parser ua)
              = (if contains ''Windows'' ua
                 then [(''name'', Str ''Windows''), (''version'', Str ''NT''), (''versions'', Versions ?vs)]
                 else [])"
    "user_agent (windows_parser ua) = ua" "ua_hash (windows_parser ua) = ''h''"
    "cache_name (windows_parser ua) = ''browser''"
    "matched_regex (windows_parser ua) = (if contains ''Windows'' ua then Some [] else None)"
    for ua
    by (simp_all add: windows_parser_def Parser__parse_def new_parser_def Parser_init_def
          windows_rule_def literal_def)
  have ca: "contains ''Windows'' ?ua" and cb: "contains ''Windows'' ?ub" by simp_all
  have h0: "?c (ua_hash (windows_parser ?ua)) = Some Map.empty"
    "?c (ua_hash (windows_parser ?ub)) = Some Map.empty"
    by (simp_all add: wp)
  have h1: "map_of (ua_data (windows_parser ?ua)) ''versions''
     = Some (Versions ([(literal ''NT 6.1'', Str ''7'')] @ (literal ''NT 10.0'', Str ''10'') # []))"
    by (simp add: wp(1) ca)
  have h2: "list_all (\<lambda>sv. fst sv (user_agent (windows_parser ?ua)) = None)
              [(literal ''NT 6.1'', Str ''7'')]"
    and h3: "literal ''NT 10.0'' (user_agent (windows_parser ?ua)) \<noteq> None"
    by (simp_all add: wp(2) literal_def)
  have k1: "map_of (ua_data (windows_parser ?ub)) ''versions'' = Some (Versions ?vs)"
    by (simp add: wp(1) cb)
  have k2: "list_all (\<lambda>sv. fst sv (user_agent (windows_parser ?ub)) = None) ?vs"
    by (simp add: wp(2) literal_def)
  let ?qa = "set_details plain_extractors
               ((windows_parser ?ua)\<lparr>ua_data :=
                  dict_set (dict_del (ua_data (windows_parser ?ua)) ''versions'') ''version''
                    (Str ''10'')\<rparr>)"
  let ?qb = "set_details plain_extractors
               ((windows_parser ?ub)\<lparr>ua_data := dict_del (ua_data (windows_parser ?ub)) ''versions''\<rparr>)"
  have ea: "extract_details plain_extractors ?c (windows_parser ?ua)
             = Inr (?c(ua_hash (windows_parser ?ua) \<mapsto>
                       Map.empty(cache_name (windows_parser ?ua) \<mapsto> ua_data ?qa)), ?qa)"
    using extract_details_sub_rule_version [where c = ?c and p = "windows_parser ?ua" and e = Map.empty
                and X = plain_extractors and pre = "[(literal ''NT 6.1'', Str ''7'')]"
                and rx = "literal ''NT 10.0''" and v = "Str ''10''" and post = "[]", OF h0(1)]
      h1 h2 h3
    unfolding Let_def by blast
  have eb: "extract_details plain_extractors ?c (windows_parser ?ub)
             = Inr (?c(ua_hash (windows_parser ?ub) \<mapsto>
                       Map.empty(cache_name (windows_parser ?ub) \<mapsto> ua_data ?qb)), ?qb)"
    using extract_details_sub_rule_version [where c = ?c and p = "windows_parser ?ub" and e = Map.empty
                and X = plain_extractors and vs = ?vs, OF h0(2)] k1 k2
    unfolding Let_def by blast
  have qa: "?qa = (windows_parser ?ua)
                \<lparr>ua_data := [(''name'', Str ''Windows''), (''version'', Str ''10'')]\<rparr>"
    by (simp add: set_details_def wp(1,5) ca dict_del_def dict_get_def Let_def)
  have qb: "?qb = (windows_parser ?ub)
                \<lparr>ua_data := [(''name'', Str ''Windows''), (''version'', Str ''NT'')]\<rparr>"
    by (simp add: set_details_def wp(1,5) cb dict_del_def dict_get_def Let_def)
  have pa: "map_sum id (\<lambda>r. version (snd r))
       (parse plain_extractors Map.empty (new_parser [windows_rule] ?ua ''h''))
     = Inr (Str ''10'')"
    by (simp add: parse_def parse_with_def get_from_cache_def Parser__parse_def new_parser_def
        Parser_init_def windows_rule_def literal_def extract_details_with_def
        extract_version_def Parser_set_details_def set_details_def dict_get_def
        add_to_cache_def Let_def dict_del_def version_def)
  have l: "literal ''NT 6.1'' ?ua = None" "literal ''NT 10.0'' ?ua \<noteq> None"
    by (simp_all add: literal_def)
  show ?thesis
    using h1 l pa ea eb unfolding qa qb by (simp add: wp(3,4))
qed

section \<open>Version truncation\<close>

text \<open>
  C6 states that \<open>build_version("10.0.16299.371", 1)\<close> is \<open>"10"\<close>, as the docstring of
  \<open>build_version\<close> does. The code keeps \<open>truncation + 1\<close> segments and returns
  \<open>"10.0"\<close>. The other two values of the claim are those of the code:
  \<open>build_version("10", 1)\<close> is \<open>"10"\<close> and \<open>build_version(v, -1)\<close> is \<open>v\<close>.
\<close>

theorem build_version_keeps_two_segments:
  "build_version (Str ''10.0.16299.371'') 1 = Str ''10.0''
   \<and> build_version (Str ''10'') 1 = Str ''10''
   \<and> build_version v (-1) = v"
  by (simp add: build_version_def replace_char_def slice_to_def)

section \<open>Engine resolution\<close>

lemma truthy_get_in: "truthy (dict_get d k (Str [])) \<Longrightarrow> dict_in k d"
  by (auto simp: dict_get_def dict_in_def split: option.splits)

lemma engine_kept:
  "truthy (dict_get d ''engine'' (Str [])) \<Longrightarrow>
   dict_in ''engine'' (dict_set (dict_set d ''short_name'' a) ''family'' f)"
  by (simp add: dict_in_set truthy_get_in)

text \<open>
  C7 states that a record without an engine gets one from a second match on the engine
  rules. The code does not reach that branch: \<open>set_engine\<close> starts with
  \<open>if not self.ua_data.get('engine', ''): return\<close>, so a record whose engine is missing
  or empty is returned as it is, with the cache untouched; and past that guard
  \<open>'engine'\<close> is a key of the record, so \<open>if 'engine' not in self.ua_data\<close> never holds.
  The result of \<open>set_engine\<close> is the same for every engine rule set, engine cache name,
  engine-version search, extractors and cache, and the cache it returns is the one it
  got.
\<close>

theorem set_engine_never_matches_engine_rules:
  "(\<not> truthy (dict_get (ua_data p) ''engine'' (Str [])) \<longrightarrow> set_engine X T c p = Inr (c, p))
   \<and> set_engine X T c p
       = map_sum id (\<lambda>r. (c, snd r))
           (set_engine X' (T\<lparr>Engine_regex_list := rl, Engine_cache_name := cn,
                              engine_regex_search := f\<rparr>) c' p)"
proof -
  have 1: "set_engine X T c p = Inr (c, p)"
    if "\<not> truthy (dict_get (ua_data p) ''engine'' (Str []))"
    using that by (simp add: set_engine_def)
  have 2: "set_engine X T c p
       = map_sum id (\<lambda>r. (c, snd r))
           (set_engine X' (T\<lparr>Engine_regex_list := rl, Engine_cache_name := cn,
                              engine_regex_search := f\<rparr>) c' p)"
  proof (cases "truthy (dict_get (ua_data p) ''engine'' (Str []))")
    case False
    then show ?thesis by (simp add: set_engine_def)
  next
    case True
    note e = engine_kept [OF True]
    show ?thesis
      unfolding set_engine_def Let_def
      by (simp add: True e split: val.splits)
  qed
  from 1 2 show ?thesis by blast
qed

theorem set_engine_never_matches_engine_rules_witness:
  "\<not> truthy (dict_get [(''name'', Str ''Chrome'')] ''engine'' (Str []))
   \<and> set_engine plain_extractors engine_tables Map.empty
        ((new_parser [chrome_rule] ''Mozilla/5.0 AppleWebKit/537.36 Chrome/120.0'' ''h'')
           \<lparr>ua_data := [(''name'', Str ''Chrome'')], matched_regex := Some [], known := True\<rparr>)
     = Inr (Map.empty,
        (new_parser [chrome_rule] ''Mozilla/5.0 AppleWebKit/537.36 Chrome/120.0'' ''h'')
           \<lparr>ua_data := [(''name'', Str ''Chrome'')], matched_regex := Some [], known := True\<rparr>)
   \<and> map_sum id (\<lambda>r. ua_data (snd r))
        (Engine_parse plain_extractors engine_tables Map.empty
          (Parser_init (Engine_regex_list engine_tables) (Engine_cache_name engine_tables)
             ''Mozilla/5.0 AppleWebKit/537.36 Chrome/120.0'' ''h''
             ''Mozilla/5.0AppleWebKit/537.36Chrome/120.0'' None None))
     = Inr [(''name'', Str ''WebKit''), (''engine_version'', Str [])]"
  using set_engine_never_matches_engine_rules
    [where p = "(new_parser [chrome_rule] ''Mozilla/5.0 AppleWebKit/537.36 Chrome/120.0'' ''h'')
           \<lparr>ua_data := [(''name'', Str ''Chrome'')], matched_regex := Some [], known := True\<rparr>"
        and X = plain_extractors and T = engine_tables and c = Map.empty]
  by (simp add: new_parser_def Parser_init_def dict_get_def engine_tables_def no_tables_def
      Engine_parse_def parse_with_def get_from_cache_def Engine__parse_def Parser__parse_def
      webkit_rule_def literal_def dict_in_def EngineVersion_parse_def extract_details_with_def
      extract_version_def Parser_set_details_def set_details_def add_to_cache_def Let_def)

section \<open>Reconciliation with client hints\<close>

lemma set_details_name_before_version: "name_before_version (ua_data (set_details X p))"
  by (auto simp: name_before_version_def set_details_def Let_def dict_get_set
        split: option.splits)

lemma Base_name:
  assumes "client_hints p = Some ch" "distinct (map fst (client_data ch))"
    "dict_in k (client_data ch)"
  shows "dict_get (ua_data (Base_set_data_from_client_hints p)) k dflt
          = dict_get (client_data ch) k dflt"
  using assms by (simp add: Base_set_data_from_client_hints_def dict_get_merge)

lemma truthy_None_in: "truthy (dict_get d k NoneV) \<Longrightarrow> dict_in k d"
  by (auto simp: dict_get_def dict_in_def split: option.splits)

lemma mobile_truthy: "Str (s @ '' Mobile'') = x \<Longrightarrow> truthy x"
  by auto

text \<open>
  C4, as the code has it. \<open>Browser.set_data_from_client_hints\<close> reaches the case of the
  brand "DuckDuckGo Privacy Browser" only after two earlier cases: an empty record with
  client hints of a browser takes the client-hint data as they are, and client hints with
  an \<open>app_id\<close> are merged into the record. When neither applies (the record is not
  empty or the hints are not those of a browser, and the hints carry no \<open>app_id\<close>) and
  the hints name the brand, the final record has the name "DuckDuckGo Privacy Browser",
  the empty string as its version, and the client-hint version (the empty string when
  the hints have none) as its \<open>engine_version\<close>.
\<close>

theorem duckduckgo_hints_clear_version:
  assumes "client_hints p = Some ch"
    and "distinct (map fst (client_data ch))"
    and "dict_get (client_data ch) ''name'' NoneV = Str ''DuckDuckGo Privacy Browser''"
    and "\<not> truthy (dict_get (client_data ch) ''app_id'' NoneV)"
    and "ua_data p \<noteq> [] \<or> \<not> client_is_browser ch"
  shows "\<exists>p'. Browser_set_data_from_client_hints T p = Inr p'
           \<and> name p' = Str ''DuckDuckGo Privacy Browser''
           \<and> version p' = Str []
           \<and> dict_get (ua_data p') ''engine_version'' NoneV
               = py_or (dict_get (client_data ch) ''version'' NoneV) (Str [])"
proof -
  let ?chd = "client_data ch"
  have nm: "py_or (dict_get ?chd ''name'' NoneV) (Str []) = Str ''DuckDuckGo Privacy Browser''"
    using assms(3) by (simp add: py_or_def)
  have inn: "dict_in ''name'' ?chd"
    using assms(3) by (intro truthy_None_in) simp
  let ?p1 = "Base_set_data_from_client_hints p"
  let ?p' = "?p1\<lparr>ua_data := dict_set (dict_set (ua_data ?p1) ''version'' (Str []))
                 ''engine_version'' (py_or (dict_get ?chd ''version'' NoneV) (Str []))\<rparr>"
  have r: "Browser_set_data_from_client_hints T p = Inr ?p'"
    using assms(1,4,5) nm
    by (auto simp: Browser_set_data_from_client_hints_def Let_def)
  have n: "name ?p' = Str ''DuckDuckGo Privacy Browser''"
    using Base_name [OF assms(1,2) inn, of "Str []"] assms(3)
    by (simp add: name_def dict_get_set) (simp add: dict_get_def split: option.splits)
  have v: "version ?p' = Str []"
    by (simp add: version_def dict_get_set)
  have e: "dict_get (ua_data ?p') ''engine_version'' NoneV
               = py_or (dict_get ?chd ''version'' NoneV) (Str [])"
    by (simp add: dict_get_set)
  from r n v e show ?thesis by blast
qed

text \<open>
  The cases before it: hints that name the brand and carry an \<open>app_id\<close> are merged into
  a matched record, whose version becomes the client-hint version "7.1" and which gets no
  \<open>engine_version\<close>; and an empty record takes the hints of a browser as they are, version
  "7.1" included.
\<close>

theorem duckduckgo_hints_earlier_cases_keep_version:
  "Browser_set_data_from_client_hints no_tables
     (browser_with
        [(''name'', Str ''Chrome Mobile''), (''version'', Str ''120.0.0.0''),
         (''short_name'', Str ''CM'')]
        \<lparr>client_data = [(''name'', Str ''DuckDuckGo Privacy Browser''), (''version'', Str ''7.1''),
                        (''app_id'', Str ''com.duckduckgo.mobile.android'')],
         client_is_browser = True\<rparr>)
   = Inr ((browser_with
        [(''name'', Str ''Chrome Mobile''), (''version'', Str ''120.0.0.0''),
         (''short_name'', Str ''CM'')]
        \<lparr>client_data = [(''name'', Str ''DuckDuckGo Privacy Browser''), (''version'', Str ''7.1''),
                        (''app_id'', Str ''com.duckduckgo.mobile.android'')],
         client_is_browser = True\<rparr>)
       \<lparr>ua_data := [(''name'', Str ''DuckDuckGo Privacy Browser''), (''version'', Str ''7.1''),
                    (''short_name'', Str ''CM''),
                    (''app_id'', Str ''com.duckduckgo.mobile.android'')]\<rparr>)
   \<and> Browser_set_data_from_client_hints no_tables
     (browser_with []
        \<lparr>client_data = [(''name'', Str ''DuckDuckGo Privacy Browser''), (''version'', Str ''7.1'')],
         client_is_browser = True\<rparr>)
   = Inr ((browser_with []
        \<lparr>client_data = [(''name'', Str ''DuckDuckGo Privacy Browser''), (''version'', Str ''7.1'')],
         client_is_browser = True\<rparr>)
       \<lparr>ua_data := [(''name'', Str ''DuckDuckGo Privacy Browser''), (''version'', Str ''7.1'')]\<rparr>)"
  by (simp add: Browser_set_data_from_client_hints_def browser_with_def Parser_init_def
        dict_get_def Let_def)

theorem duckduckgo_hints_clear_version_witness:
  "Browser_set_data_from_client_hints no_tables
     (browser_with
        [(''name'', Str ''Chrome Mobile''), (''version'', Str ''120.0.0.0''),
         (''short_name'', Str ''CM'')]
        \<lparr>client_data = [(''name'', Str ''DuckDuckGo Privacy Browser''), (''version'', Str ''7.1'')],
         client_is_browser = True\<rparr>)
   = Inr ((browser_with
        [(''name'', Str ''Chrome Mobile''), (''version'', Str ''120.0.0.0''),
         (''short_name'', Str ''CM'')]
        \<lparr>client_data = [(''name'', Str ''DuckDuckGo Privacy Browser''), (''version'', Str ''7.1'')],
         client_is_browser = True\<rparr>)
       \<lparr>ua_data := [(''name'', Str ''DuckDuckGo Privacy Browser''), (''version'', Str []),
                    (''short_name'', Str ''CM''), (''engine_version'', Str ''7.1'')]\<rparr>)"
proof -
  let ?ch = "\<lparr>client_data = [(''name'', Str ''DuckDuckGo Privacy Browser''), (''version'', Str ''7.1'')],
         client_is_browser = True\<rparr>"
  let ?p = "browser_with
        [(''name'', Str ''Chrome Mobile''), (''version'', Str ''120.0.0.0''),
         (''short_name'', Str ''CM'')] ?ch"
  have h: "client_hints ?p = Some ?ch" "distinct (map fst (client_data ?ch))"
    "dict_get (client_data ?ch) ''name'' NoneV = Str ''DuckDuckGo Privacy Browser''"
    "\<not> truthy (dict_get (client_data ?ch) ''app_id'' NoneV)"
    "ua_data ?p \<noteq> [] \<or> \<not> client_is_browser ?ch"
    by (simp_all add: browser_with_def Parser_init_def dict_get_def)
  from duckduckgo_hints_clear_version [OF h, of no_tables] show ?thesis
    by (simp add: Browser_set_data_from_client_hints_def browser_with_def Parser_init_def
        dict_get_def Let_def py_or_def Base_set_data_from_client_hints_def)
qed

text \<open>
  C5, as the code has it. The record names a browser (its name is not empty), its
  \<open>short_name\<close> is none of CR, CV and AN, the client hints carry no \<open>app_id\<close> and name
  "Chromium" or "Chrome Webview", and their version is a string \<open>v\<close> (the empty string
  when they have none). If \<open>v\<close> matches \<open>DATE_VERSION\<close>, that is, begins with 202 and a
  digit from 0 to 5, the final record has the name "Iridium" and the short name "I1". If
  \<open>v\<close> does not begin with 202 and a digit, the name and the short name of the record stay
  those of the user agent.
\<close>

theorem chromium_hints_iridium_or_ua_name:
  assumes "client_hints p = Some ch"
    and "\<not> truthy (dict_get (client_data ch) ''app_id'' NoneV)"
    and "truthy (name p)"
    and "dict_get (client_data ch) ''name'' NoneV = Str ''Chromium''
         \<or> dict_get (client_data ch) ''name'' NoneV = Str ''Chrome Webview''"
    and "dict_get (ua_data p) ''short_name'' (Str []) \<notin> {Str ''CR'', Str ''CV'', Str ''AN''}"
    and "py_or (dict_get (client_data ch) ''version'' NoneV) (Str []) = Str v"
  shows "(DATE_VERSION_search v \<longrightarrow>
            (\<exists>p'. Browser_set_data_from_client_hints T p = Inr p'
               \<and> name p' = Str ''Iridium'' \<and> short_name p' = Str ''I1''))
       \<and> (\<not> begins_202_digit v \<longrightarrow>
            (\<exists>p'. Browser_set_data_from_client_hints T p = Inr p'
               \<and> name p' = name p
               \<and> short_name p' = dict_get (ua_data p) ''short_name'' (Str [])))"
proof -
  let ?chd = "client_data ch"
  have ne: "ua_data p \<noteq> []"
    using assms(3) by (auto simp: name_def dict_get_def)
  have nm: "py_or (dict_get ?chd ''name'' NoneV) (Str []) = dict_get ?chd ''name'' NoneV"
    using assms(4) by (auto simp: py_or_def)
  have nd: "dict_get ?chd ''name'' NoneV \<noteq> Str ''DuckDuckGo Privacy Browser''"
    using assms(4) by auto
  have date: "DATE_VERSION_search v \<Longrightarrow> begins_202_digit v"
    by (auto simp: DATE_VERSION_search_def begins_202_digit_def)
  have 1: "\<exists>p'. Browser_set_data_from_client_hints T p = Inr p'
               \<and> name p' = Str ''Iridium'' \<and> short_name p' = Str ''I1''"
    if "DATE_VERSION_search v"
    using assms ne nm nd that
    by (auto simp: Browser_set_data_from_client_hints_def Let_def name_def short_name_def
          dict_get_set)
  have 2: "\<exists>p'. Browser_set_data_from_client_hints T p = Inr p'
               \<and> name p' = name p
               \<and> short_name p' = dict_get (ua_data p) ''short_name'' (Str [])"
    if "\<not> begins_202_digit v"
  proof -
    have nodate: "\<not> DATE_VERSION_search v" using that date by blast
    let ?p' = "p\<lparr>ua_data :=
                   dict_set
                     (dict_set (dict_set (ua_data p) ''name'' (name p))
                        ''version'' (dict_get (ua_data p) ''version'' (Str [])))
                     ''short_name'' (dict_get (ua_data p) ''short_name'' (Str []))\<rparr>"
    have r: "Browser_set_data_from_client_hints T p = Inr ?p'"
      using assms ne nm nd nodate
      by (auto simp: Browser_set_data_from_client_hints_def Let_def name_def)
    have "name ?p' = name p" "short_name ?p' = dict_get (ua_data p) ''short_name'' (Str [])"
      by (simp_all add: name_def short_name_def dict_get_set)
    then show ?thesis using r by auto
  qed
  from 1 2 show ?thesis by blast
qed

text \<open>
  Where the statement of C5 without these conditions fails: client hints with an
  \<open>app_id\<close> are merged into the record before the brand is looked at, so the name becomes
  "Chromium"; and the version "2026.01", four digits that begin with 202, is not matched
  by \<open>^202[0-5]\<close>, so the name of the user agent stays.
\<close>

theorem chromium_hints_app_id_or_later_year:
  "map_sum id name
     (Browser_set_data_from_client_hints no_tables
        (browser_with [(''name'', Str ''Brave''), (''short_name'', Str ''BR'')]
           \<lparr>client_data = [(''name'', Str ''Chromium''), (''version'', Str ''120.0.0.0''),
                           (''app_id'', Str ''com.brave.browser'')],
            client_is_browser = True\<rparr>))
     = Inr (Str ''Chromium'')
   \<and> begins_202_digit ''2026.01''
   \<and> map_sum id name
     (Browser_set_data_from_client_hints no_tables
        (browser_with [(''name'', Str ''Brave''), (''short_name'', Str ''BR'')]
           \<lparr>client_data = [(''name'', Str ''Chromium''), (''version'', Str ''2026.01'')],
            client_is_browser = True\<rparr>))
     = Inr (Str ''Brave'')"
  by (simp add: Browser_set_data_from_client_hints_def browser_with_def Parser_init_def
        dict_get_def Let_def py_or_def name_def DATE_VERSION_search_def begins_202_digit_def)

theorem chromium_hints_iridium_or_ua_name_witness:
  "map_sum id (\<lambda>q. (name q, short_name q))
     (Browser_set_data_from_client_hints no_tables
        (browser_with [(''name'', Str ''Brave''), (''short_name'', Str ''BR'')]
           \<lparr>client_data = [(''name'', Str ''Chromium''), (''version'', Str ''2024.03'')],
            client_is_browser = True\<rparr>))
     = Inr (Str ''Iridium'', Str ''I1'')
   \<and> map_sum id (\<lambda>q. (name q, short_name q))
     (Browser_set_data_from_client_hints no_tables
        (browser_with [(''name'', Str ''Brave''), (''short_name'', Str ''BR'')]
           \<lparr>client_data = [(''name'', Str ''Chromium''), (''version'', Str ''120.0.0.0'')],
            client_is_browser = True\<rparr>))
     = Inr (Str ''Brave'', Str ''BR'')"
proof -
  let ?ua = "[(''name'', Str ''Brave''), (''short_name'', Str ''BR'')]"
  let ?ch1 = "\<lparr>client_data = [(''name'', Str ''Chromium''), (''version'', Str ''2024.03'')],
            client_is_browser = True\<rparr>"
  let ?ch2 = "\<lparr>client_data = [(''name'', Str ''Chromium''), (''version'', Str ''120.0.0.0'')],
            client_is_browser = True\<rparr>"
  have h1: "client_hints (browser_with ?ua ?ch1) = Some ?ch1"
    "\<not> truthy (dict_get (client_data ?ch1) ''app_id'' NoneV)"
    "truthy (name (browser_with ?ua ?ch1))"
    "dict_get (client_data ?ch1) ''name'' NoneV = Str ''Chromium''
         \<or> dict_get (client_data ?ch1) ''name'' NoneV = Str ''Chrome Webview''"
    "dict_get (ua_data (browser_with ?ua ?ch1)) ''short_name'' (Str [])
        \<notin> {Str ''CR'', Str ''CV'', Str ''AN''}"
    "py_or (dict_get (client_data ?ch1) ''version'' NoneV) (Str []) = Str ''2024.03''"
    by (simp_all add: browser_with_def Parser_init_def dict_get_def name_def py_or_def)
  have h2: "client_hints (browser_with ?ua ?ch2) = Some ?ch2"
    "\<not> truthy (dict_get (client_data ?ch2) ''app_id'' NoneV)"
    "truthy (name (browser_with ?ua ?ch2))"
    "dict_get (client_data ?ch2) ''name'' NoneV = Str ''Chromium''
         \<or> dict_get (client_data ?ch2) ''name'' NoneV = Str ''Chrome Webview''"
    "dict_get (ua_data (browser_with ?ua ?ch2)) ''short_name'' (Str [])
        \<notin> {Str ''CR'', Str ''CV'', Str ''AN''}"
    "py_or (dict_get (client_data ?ch2) ''version'' NoneV) (Str []) = Str ''120.0.0.0''"
    by (simp_all add: browser_with_def Parser_init_def dict_get_def name_def py_or_def)
  have d1: "DATE_VERSION_search ''2024.03''" and d2: "\<not> begins_202_digit ''120.0.0.0''"
    by (simp_all add: DATE_VERSION_search_def begins_202_digit_def)
  from chromium_hints_iridium_or_ua_name [OF h1, of no_tables] chromium_hints_iridium_or_ua_name [OF h2, of no_tables] d1 d2 show ?thesis
    by (auto simp: browser_with_def Parser_init_def dict_get_def name_def)
qed

text \<open>
  C2, as the code has it. After \<open>Parser.set_details\<close> a record with a non-empty version
  has a non-empty name: a version without a name is set to the empty string.
  \<open>Browser.set_data_from_client_hints\<close> has no such step. Without client hints it leaves
  the record as it is; with client hints that carry a non-empty name, the record it
  returns has a non-empty name, whatever its version.
\<close>

theorem name_before_version_kept:
  "name_before_version (ua_data (set_details X p))
   \<and> (client_hints p = None \<longrightarrow> Browser_set_data_from_client_hints T p = Inr p)
   \<and> (client_hints p = Some ch \<longrightarrow> distinct (map fst (client_data ch)) \<longrightarrow>
        truthy (dict_get (client_data ch) ''name'' NoneV) \<longrightarrow>
        Browser_set_data_from_client_hints T p = Inr p' \<longrightarrow>
          truthy (name p') \<and> name_before_version (ua_data p'))"
proof -
  have 1: "name_before_version (ua_data (set_details X p))"
    by (rule set_details_name_before_version)
  have 2: "Browser_set_data_from_client_hints T p = Inr p" if "client_hints p = None"
    using that by (simp add: Browser_set_data_from_client_hints_def)
  have 3: "truthy (name p') \<and> name_before_version (ua_data p')"
    if h: "client_hints p = Some ch" "distinct (map fst (client_data ch))"
      "truthy (dict_get (client_data ch) ''name'' NoneV)"
      "Browser_set_data_from_client_hints T p = Inr p'"
  proof -
    let ?chd = "client_data ch"
    have inn: "dict_in ''name'' ?chd" using h(3) by (rule truthy_None_in)
    have g: "dict_get ?chd ''name'' (Str []) = dict_get ?chd ''name'' NoneV"
      using inn by (auto simp: dict_get_def dict_in_def)
    have nm: "py_or (dict_get ?chd ''name'' NoneV) (Str []) = dict_get ?chd ''name'' NoneV"
      using h(3) by (simp add: py_or_def)
    have base: "name (Base_set_data_from_client_hints p) = dict_get ?chd ''name'' NoneV"
      using Base_name [OF h(1,2) inn, of "Str []"] g by (simp add: name_def)
    have mrg: "dict_get (dict_merge (ua_data p) ?chd) ''name'' (Str []) = dict_get ?chd ''name'' NoneV"
      using h(2) inn g by (simp add: dict_get_merge)
    have "truthy (name p')"
      using h(1,3,4) nm base mrg g
      by (auto simp: Browser_set_data_from_client_hints_def Let_def name_def dict_get_set
            split: if_splits val.splits dest: mobile_truthy)
    then show ?thesis
      by (simp add: name_before_version_def name_def dict_get_def split: option.splits)
  qed
  from 1 2 3 show ?thesis by blast
qed

text \<open>
  Client hints with a version and an \<open>app_id\<close> and no name, merged into an empty record,
  give a record with the version "1.0" and an empty name.
\<close>

theorem reconciliation_version_without_name:
  "Browser_set_data_from_client_hints no_tables
     (browser_with []
        \<lparr>client_data = [(''name'', Str []), (''version'', Str ''1.0''),
                        (''app_id'', Str ''com.example.app'')],
         client_is_browser = False\<rparr>)
   = Inr ((browser_with []
        \<lparr>client_data = [(''name'', Str []), (''version'', Str ''1.0''),
                        (''app_id'', Str ''com.example.app'')],
         client_is_browser = False\<rparr>)
       \<lparr>ua_data := [(''name'', Str []), (''version'', Str ''1.0''),
                    (''app_id'', Str ''com.example.app'')]\<rparr>)
   \<and> version ((browser_with []
        \<lparr>client_data = [(''name'', Str []), (''version'', Str ''1.0''),
                        (''app_id'', Str ''com.example.app'')],
         client_is_browser = False\<rparr>)
       \<lparr>ua_data := [(''name'', Str []), (''version'', Str ''1.0''),
                    (''app_id'', Str ''com.example.app'')]\<rparr>) = Str ''1.0''
   \<and> name ((browser_with []
        \<lparr>client_data = [(''name'', Str []), (''version'', Str ''1.0''),
                        (''app_id'', Str ''com.example.app'')],
         client_is_browser = False\<rparr>)
       \<lparr>ua_data := [(''name'', Str []), (''version'', Str ''1.0''),
                    (''app_id'', Str ''com.example.app'')]\<rparr>) = Str []
   \<and> \<not> name_before_version [(''name'', Str []), (''version'', Str ''1.0''),
                    (''app_id'', Str ''com.example.app'')]"
  by (simp add: Browser_set_data_from_client_hints_def browser_with_def Parser_init_def
        dict_get_def Let_def name_def version_def name_before_version_def)

theorem name_before_version_kept_witness:
  "ua_data (set_details plain_extractors
      ((new_parser [] ''Mozilla/5.0'' ''h'')\<lparr>ua_data := [(''version'', Str ''1.0'')]\<rparr>))
     = [(''version'', Str [])]
   \<and> name_before_version [(''version'', Str [])]
   \<and> Browser_set_data_from_client_hints no_tables
        (browser_with [(''version'', Str ''9'')]
           \<lparr>client_data = [(''name'', Str ''Chrome''), (''version'', Str ''120.0'')],
            client_is_browser = True\<rparr>)
     = Inr ((browser_with [(''version'', Str ''9'')]
           \<lparr>client_data = [(''name'', Str ''Chrome''), (''version'', Str ''120.0'')],
            client_is_browser = True\<rparr>)
          \<lparr>ua_data := [(''version'', Str ''120.0''), (''name'', Str ''Chrome'')]\<rparr>)
   \<and> name_before_version [(''version'', Str ''120.0''), (''name'', Str ''Chrome'')]"
proof -
  let ?ch = "\<lparr>client_data = [(''name'', Str ''Chrome''), (''version'', Str ''120.0'')],
            client_is_browser = True\<rparr>"
  let ?p = "browser_with [(''version'', Str ''9'')] ?ch"
  let ?p' = "?p\<lparr>ua_data := [(''version'', Str ''120.0''), (''name'', Str ''Chrome'')]\<rparr>"
  let ?q = "(new_parser [] ''Mozilla/5.0'' ''h'')\<lparr>ua_data := [(''version'', Str ''1.0'')]\<rparr>"
  have r: "Browser_set_data_from_client_hints no_tables ?p = Inr ?p'"
    by (simp add: Browser_set_data_from_client_hints_def browser_with_def Parser_init_def
        dict_get_def Let_def py_or_def Base_set_data_from_client_hints_def no_tables_def
        format_val_def)
  have s: "ua_data (set_details plain_extractors ?q) = [(''version'', Str [])]"
    by (simp add: set_details_def new_parser_def Parser_init_def dict_get_def Let_def)
  have h: "client_hints ?p = Some ?ch" "distinct (map fst (client_data ?ch))"
    "truthy (dict_get (client_data ?ch) ''name'' NoneV)"
    by (simp_all add: browser_with_def Parser_init_def dict_get_def)
  from name_before_version_kept [where X = plain_extractors and p = ?q]
    name_before_version_kept [where p = ?p and ch = ?ch and T = no_tables and p' = ?p'] h r s
  show ?thesis by simp
qed

end
